theory Spec2Isabelle
  imports Main "HOL-Library.Sublist"
begin

section \<open>Strings of the inspector script\<close>

text \<open>
  JavaScript strings are modelled as \<^typ>\<open>string\<close>, a list of characters, each character
  one code unit in the ASCII range. \<open>String.prototype.includes\<close> is \<^const>\<open>sublist\<close>
  (needle first), \<open>Array.prototype.includes\<close> is membership in \<^const>\<open>set\<close>.
  The case mappings below act on the ASCII letters and leave every other character as it is.
\<close>

definition dq :: char where
  "dq = CHR 0x22"

definition bs :: char where
  "bs = CHR 0x5C"

definition nl :: char where
  "nl = CHR 0x0A"

definition toLowerCase_char :: "char \<Rightarrow> char" where
  "toLowerCase_char c =
     (let n = (of_char c :: nat) in if 65 \<le> n \<and> n \<le> 90 then char_of (n + 32) else c)"

definition toUpperCase_char :: "char \<Rightarrow> char" where
  "toUpperCase_char c =
     (let n = (of_char c :: nat) in if 97 \<le> n \<and> n \<le> 122 then char_of (n - 32) else c)"

definition toLowerCase :: "string \<Rightarrow> string" where
  "toLowerCase s = map toLowerCase_char s"

definition toUpperCase :: "string \<Rightarrow> string" where
  "toUpperCase s = map toUpperCase_char s"

text \<open>White space and line terminators that \<open>trim\<close> and \<open>parseInt\<close> strip: TAB, LF, VT, FF, CR, SP.\<close>

definition isWhiteSpace :: "char \<Rightarrow> bool" where
  "isWhiteSpace c = (let n = (of_char c :: nat) in (9 \<le> n \<and> n \<le> 13) \<or> n = 32)"

definition trim :: "string \<Rightarrow> string" where
  "trim s = rev (dropWhile isWhiteSpace (rev (dropWhile isWhiteSpace s)))"

text \<open>
  \<open>parseInt(s)\<close> with no radix: leading white space is skipped, an optional sign is read, a
  prefix \<open>0x\<close>/\<open>0X\<close> selects radix 16, and the longest run of digits of the radix is the value;
  no digit at all is \<open>NaN\<close>, here \<^const>\<open>None\<close>. The script only compares the result with
  \<open>0\<close> and an array length, where the exact integer and its double agree.
\<close>

definition digitValue :: "char \<Rightarrow> nat option" where
  "digitValue c =
     (let n = (of_char c :: nat) in
      if 48 \<le> n \<and> n \<le> 57 then Some (n - 48)
      else if 97 \<le> n \<and> n \<le> 122 then Some (n - 87)
      else if 65 \<le> n \<and> n \<le> 90 then Some (n - 55)
      else None)"

definition isRadixDigit :: "nat \<Rightarrow> char \<Rightarrow> bool" where
  "isRadixDigit R c = (case digitValue c of None \<Rightarrow> False | Some d \<Rightarrow> d < R)"

definition digitsValue :: "nat \<Rightarrow> string \<Rightarrow> int" where
  "digitsValue R Z = foldl (\<lambda>acc c. acc * int R + int (case digitValue c of None \<Rightarrow> 0 | Some d \<Rightarrow> d)) 0 Z"

definition parseInt :: "string \<Rightarrow> int option" where
  "parseInt s =
     (let S = dropWhile isWhiteSpace s;
          (sign, S) = (case S of
                         [] \<Rightarrow> (1, S)
                       | c # r \<Rightarrow> if c = CHR ''-'' then (- 1, r)
                                  else if c = CHR ''+'' then (1, r) else (1, S));
          (R, S) = (case S of
                      a # b # r \<Rightarrow> if a = CHR ''0'' \<and> (b = CHR ''x'' \<or> b = CHR ''X'')
                                     then (16, r) else (10, S)
                    | _ \<Rightarrow> (10, S));
          Z = takeWhile (isRadixDigit R) S
      in if Z = [] then None else Some (sign * digitsValue R Z))"

text \<open>
  \<open>JSON.stringify\<close> of a string: the text between double quotes, with the quote, the
  backslash and the control characters escaped.
\<close>

definition hexDigit :: "nat \<Rightarrow> char" where
  "hexDigit d = (if d < 10 then char_of (48 + d) else char_of (87 + d))"

definition quoteJSONChar :: "char \<Rightarrow> string" where
  "quoteJSONChar c =
     (let n = (of_char c :: nat) in
      if n = 8 then [bs, CHR ''b'']
      else if n = 9 then [bs, CHR ''t'']
      else if n = 10 then [bs, CHR ''n'']
      else if n = 12 then [bs, CHR ''f'']
      else if n = 13 then [bs, CHR ''r'']
      else if c = dq then [bs, dq]
      else if c = bs then [bs, bs]
      else if n < 32 then [bs, CHR ''u'', CHR ''0'', CHR ''0'', hexDigit (n div 16), hexDigit (n mod 16)]
      else [c])"

definition JSON_stringify :: "string \<Rightarrow> string" where
  "JSON_stringify s = [dq] @ concat (map quoteJSONChar s) @ [dq]"

abbreviation unescaped :: "string \<Rightarrow> bool" where
  "unescaped n \<equiv> \<forall>c\<in>set n. quoteJSONChar c = [c]"

section \<open>Data of the inspector\<close>

record finding =
  summary :: string
  description :: string

record issue =
  issue_key :: string

record project =
  project_key :: string
  project_name :: string

text \<open>A thrown error; the script reads only its \<open>message\<close>, which may be undefined.\<close>

record js_error =
  message :: "string option"

text \<open>
  The lines the script prints, one constructor per \<open>console.log\<close>/\<open>console.error\<close> call site,
  carrying the values interpolated into the line.
\<close>

datatype log_line =
    Missing_README
  | README_found
  | Missing_LICENSE
  | LICENSE_found
  | Missing_gitignore
  | gitignore_found
  | Missing_Workflows
  | Workflows_found nat
  | No_common_issues
  | Found_issues nat
  | Updated string string
  | Created string string
  | Invalid_Project_Key string
  | Fetching_available_projects
  | No_projects_found
  | Available_Projects
  | Project_line nat string string
  | Retrying_with_project string
  | Error_fetching_project_list "string option"
  | Failed_to_process string "string option"
  | Unexpected_error "string option"

text \<open>The calls the script makes to its collaborators, in the order it makes them.\<close>

datatype call =
    GetRepoRootFiles string
  | GetRepoDirectoryFiles string string
  | SearchIssues string
  | UpdateIssue string string string
  | CreateIssue string string string string
  | GetProjects
  | AskQuestion string
  | Rl_close

text \<open>
  The collaborators (\<open>githubService\<close>, \<open>jiraService\<close>, the readline prompt) are parameters:
  each takes the state of the outside world and returns its result, or the error it throws,
  with the new state of the world.
\<close>

record 'w services =
  getRepoRootFiles :: "string \<Rightarrow> 'w \<Rightarrow> (js_error + string list) \<times> 'w"
  getRepoDirectoryFiles :: "string \<Rightarrow> string \<Rightarrow> 'w \<Rightarrow> (js_error + string list) \<times> 'w"
  searchIssues :: "string \<Rightarrow> 'w \<Rightarrow> (js_error + issue list) \<times> 'w"
  updateIssue :: "string \<Rightarrow> string \<Rightarrow> string \<Rightarrow> 'w \<Rightarrow> (js_error + unit) \<times> 'w"
  createIssue :: "string \<Rightarrow> string \<Rightarrow> string \<Rightarrow> string \<Rightarrow> 'w \<Rightarrow> (js_error + issue) \<times> 'w"
  getProjects :: "'w \<Rightarrow> (js_error + project list) \<times> 'w"
  askQuestion :: "string \<Rightarrow> 'w \<Rightarrow> string \<times> 'w"

text \<open>
  The state the script threads through a run: the module variable \<open>JIRA_PROJECT_KEY\<close>, what
  has been printed, the calls made so far, and the outside world.
\<close>

record 'w state =
  JIRA_PROJECT_KEY :: string
  console :: "log_line list"
  calls :: "call list"
  world :: 'w

definition logs :: "log_line list \<Rightarrow> 'w state \<Rightarrow> 'w state" where
  "logs ls st = st\<lparr>console := console st @ ls\<rparr>"

definition called :: "call \<Rightarrow> 'w \<Rightarrow> 'w state \<Rightarrow> 'w state" where
  "called c w st = st\<lparr>calls := calls st @ [c], world := w\<rparr>"

section \<open>Detection of missing artifacts\<close>

definition repoLink :: "string \<Rightarrow> string" where
  "repoLink repoName = ''The repository ['' @ repoName @ ''|https://github.com/'' @ repoName @ ''] ''"

definition readmeFinding :: "string \<Rightarrow> finding" where
  "readmeFinding repoName =
     \<lparr>summary = ''Missing README in '' @ repoName,
      description = repoLink repoName @
        ''is missing a README file. Please add a README.md to document the project.''\<rparr>"

definition licenseFinding :: "string \<Rightarrow> finding" where
  "licenseFinding repoName =
     \<lparr>summary = ''Missing LICENSE in '' @ repoName,
      description = repoLink repoName @
        ''is missing a LICENSE file. Please add an appropriate open source license.''\<rparr>"

definition gitignoreFinding :: "string \<Rightarrow> finding" where
  "gitignoreFinding repoName =
     \<lparr>summary = ''Missing .gitignore in '' @ repoName,
      description = repoLink repoName @
        ''is missing a .gitignore file. This is essential to prevent committing temporary or sensitive files.''\<rparr>"

definition workflowsFinding :: "string \<Rightarrow> finding" where
  "workflowsFinding repoName =
     \<lparr>summary = ''Missing GitHub Workflows in '' @ repoName,
      description = repoLink repoName @
        ''does not appear to have any CI/CD workflows in .github/workflows. Please add appropriate Actions workflows.''\<rparr>"

text \<open>
  Checks 1 to 3 of \<open>inspectRepo\<close>, on the root listing: each either pushes a finding and prints
  the missing line, or prints the found line. The accumulator is \<open>findings\<close> with the lines
  printed.
\<close>

definition checkRootFiles :: "string \<Rightarrow> string list \<Rightarrow> finding list \<times> log_line list" where
  "checkRootFiles repoName lowerFiles =
     (let acc = ([], []);
          acc = (if ''readme.md'' \<notin> set lowerFiles \<and> ''readme.txt'' \<notin> set lowerFiles
                    \<and> ''readme'' \<notin> set lowerFiles
                 then (fst acc @ [readmeFinding repoName], snd acc @ [Missing_README])
                 else (fst acc, snd acc @ [README_found]));
          acc = (if ''license'' \<notin> set lowerFiles \<and> ''license.md'' \<notin> set lowerFiles
                    \<and> ''license.txt'' \<notin> set lowerFiles \<and> ''copying'' \<notin> set lowerFiles
                 then (fst acc @ [licenseFinding repoName], snd acc @ [Missing_LICENSE])
                 else (fst acc, snd acc @ [LICENSE_found]));
          acc = (if ''.gitignore'' \<notin> set lowerFiles
                 then (fst acc @ [gitignoreFinding repoName], snd acc @ [Missing_gitignore])
                 else (fst acc, snd acc @ [gitignore_found]))
      in acc)"

text \<open>Check 4, on the listing of \<open>.github/workflows\<close>.\<close>

definition checkWorkflows ::
  "string \<Rightarrow> string list \<Rightarrow> finding list \<times> log_line list \<Rightarrow> finding list \<times> log_line list" where
  "checkWorkflows repoName workflowFiles acc =
     (let hasWorkflows = length workflowFiles > 0
      in if \<not> hasWorkflows
         then (fst acc @ [workflowsFinding repoName], snd acc @ [Missing_Workflows])
         else (fst acc, snd acc @ [Workflows_found (length workflowFiles)]))"

text \<open>
  The detector: lines 80 to 129 of \<open>inspectRepo\<close> as a function of the two listings, for the
  repository named \<open>repoName\<close>. It returns the findings and the lines printed.
\<close>

definition detect :: "string \<Rightarrow> string list \<Rightarrow> string list \<Rightarrow> finding list \<times> log_line list" where
  "detect repoName rootFiles workflowFiles =
     (let lowerFiles = map toLowerCase rootFiles
      in checkWorkflows repoName workflowFiles (checkRootFiles repoName lowerFiles))"

section \<open>The ticket loop\<close>

definition commands :: "string list \<Rightarrow> string \<times> string" where
  "commands lowerFiles =
     (if ''package.json'' \<in> set lowerFiles then (''npm install && npm run build'', ''npm test'')
      else if ''pom.xml'' \<in> set lowerFiles then (''mvn clean install'', ''mvn test'')
      else if ''requirements.txt'' \<in> set lowerFiles then (''pip install -r requirements.txt'', ''pytest'')
      else (''N/A'', ''N/A''))"

definition newDescription :: "string \<Rightarrow> string list \<Rightarrow> finding \<Rightarrow> string" where
  "newDescription repoName lowerFiles f =
     (case commands lowerFiles of (buildCmd, testCmd) \<Rightarrow>
        repoName @ [nl, nl] @ description f @ [nl, nl] @ ''Payload:'' @ [nl]
        @ ''- Build Command: '' @ buildCmd @ [nl] @ ''- Test Command: '' @ testCmd)"

text \<open>\<open>finding.summary.replace(/"/g, '\\"')\<close>: a backslash before every double quote.\<close>

definition safeSummary :: "string \<Rightarrow> string" where
  "safeSummary s = concat (map (\<lambda>c. if c = dq then [bs, dq] else [c]) s)"

definition jqlFor :: "string \<Rightarrow> string \<Rightarrow> string" where
  "jqlFor projectKey s =
     ''project = '' @ [dq] @ projectKey @ [dq] @ '' AND summary ~ '' @ [dq] @ safeSummary s @ [dq]"

text \<open>
  The body of the \<open>try\<close> block (lines 155 to 179): search, then update the first issue found or
  create one. The result is \<^const>\<open>Inl\<close> of the error thrown by the call that failed, or
  \<^const>\<open>Inr\<close> when the block ran to its end.
\<close>

definition tryBody ::
  "'w services \<Rightarrow> string \<Rightarrow> string list \<Rightarrow> finding \<Rightarrow> 'w state \<Rightarrow> (js_error + unit) \<times> 'w state" where
  "tryBody env repoName lowerFiles f st =
     (let jql = jqlFor (JIRA_PROJECT_KEY st) (summary f) in
      case searchIssues env jql (world st) of (r, w) \<Rightarrow>
        let st = called (SearchIssues jql) w st in
        (case r of
           Inl err \<Rightarrow> (Inl err, st)
         | Inr existingIssues \<Rightarrow>
             (case existingIssues of
                first # _ \<Rightarrow>
                  (case updateIssue env (issue_key first) (summary f)
                          (newDescription repoName lowerFiles f) (world st) of (r, w) \<Rightarrow>
                     let st = called (UpdateIssue (issue_key first) (summary f)
                                        (newDescription repoName lowerFiles f)) w st in
                     (case r of
                        Inl err \<Rightarrow> (Inl err, st)
                      | Inr _ \<Rightarrow> (Inr (), logs [Updated (issue_key first) (summary f)] st)))
              | [] \<Rightarrow>
                  (case createIssue env (JIRA_PROJECT_KEY st) (summary f)
                          (newDescription repoName lowerFiles f) ''Task'' (world st) of (r, w) \<Rightarrow>
                     let st = called (CreateIssue (JIRA_PROJECT_KEY st) (summary f)
                                        (newDescription repoName lowerFiles f) ''Task'') w st in
                     (case r of
                        Inl err \<Rightarrow> (Inl err, st)
                      | Inr ticket \<Rightarrow> (Inr (), logs [Created (issue_key ticket) (summary f)] st))))))"

text \<open>The test of line 183 on the caught error.\<close>

definition isProjectError :: "js_error \<Rightarrow> bool" where
  "isProjectError err =
     (let errMsg = JSON_stringify (case message err of None \<Rightarrow> [] | Some m \<Rightarrow> m) in
      sublist ''valid project is required'' errMsg
      \<or> sublist ''project is required'' errMsg
      \<or> (case message err of None \<Rightarrow> False | Some m \<Rightarrow> m \<noteq> [] \<and> sublist ''400'' m))"

text \<open>How one pass through the body of the \<open>while\<close> loop ends.\<close>

datatype 'w step =
    Success "'w state"
  | Break "'w state"
  | Continue "'w state"
  | Throw js_error "'w state"

fun state_of :: "'w step \<Rightarrow> 'w state" where
  "state_of (Success st) = st"
| "state_of (Break st) = st"
| "state_of (Continue st) = st"
| "state_of (Throw err st) = st"

text \<open>
  The project branch of the \<open>catch\<close> (lines 184 to 216). The inner \<open>catch\<close> also catches the
  \<open>throw err\<close> of the empty list, prints its line and throws \<open>err\<close> again.
\<close>

definition projectLines :: "project list \<Rightarrow> log_line list" where
  "projectLines projects =
     map (\<lambda>(index, p). Project_line (index + 1) (project_key p) (project_name p))
         (zip [0 ..< length projects] projects)"

definition selectProject :: "'w services \<Rightarrow> js_error \<Rightarrow> 'w state \<Rightarrow> 'w step" where
  "selectProject env err st =
     (let st = logs [Invalid_Project_Key (JIRA_PROJECT_KEY st), Fetching_available_projects] st in
      case getProjects env (world st) of (r, w) \<Rightarrow>
        let st = called GetProjects w st in
        (case r of
           Inl projErr \<Rightarrow> Throw err (logs [Error_fetching_project_list (message projErr)] st)
         | Inr projects \<Rightarrow>
             if length projects = 0
             then Throw err (logs [No_projects_found, Error_fetching_project_list (message err)] st)
             else
               let st = logs (Available_Projects # projectLines projects) st in
               (case askQuestion env (nl # ''Select project number or type KEY: '') (world st) of
                  (answer, w) \<Rightarrow>
                    let st = called (AskQuestion (nl # ''Select project number or type KEY: '')) w st;
                        choice = trim answer;
                        num = parseInt choice;
                        st = (case num of
                                None \<Rightarrow> st\<lparr>JIRA_PROJECT_KEY := toUpperCase choice\<rparr>
                              | Some n \<Rightarrow>
                                  if n > 0 \<and> n \<le> int (length projects)
                                  then st\<lparr>JIRA_PROJECT_KEY := project_key (projects ! nat (n - 1))\<rparr>
                                  else st\<lparr>JIRA_PROJECT_KEY := toUpperCase choice\<rparr>)
                    in Continue (logs [Retrying_with_project (JIRA_PROJECT_KEY st)] st))))"

text \<open>The \<open>catch\<close> clause of lines 180 to 221.\<close>

definition catchClause :: "'w services \<Rightarrow> finding \<Rightarrow> js_error \<Rightarrow> 'w state \<Rightarrow> 'w step" where
  "catchClause env f err st =
     (if isProjectError err then selectProject env err st
      else Break (logs [Failed_to_process (summary f) (message err)] st))"

text \<open>One pass through the body of \<open>while (!success)\<close>.\<close>

definition iteration ::
  "'w services \<Rightarrow> string \<Rightarrow> string list \<Rightarrow> finding \<Rightarrow> 'w state \<Rightarrow> 'w step" where
  "iteration env repoName lowerFiles f st =
     (case tryBody env repoName lowerFiles f st of
        (Inr _, st) \<Rightarrow> Success st
      | (Inl err, st) \<Rightarrow> catchClause env f err st)"

text \<open>
  The \<open>while (!success)\<close> loop for one finding. It has no bound, so it is a partial function:
  \<^const>\<open>None\<close> is the run that never leaves the loop. A result \<^const>\<open>Inr\<close> is the loop left by
  \<open>success = true\<close> or \<open>break\<close>, \<^const>\<open>Inl\<close> the error thrown out of it.
\<close>

partial_function (option) whileLoop ::
  "'w services \<Rightarrow> string \<Rightarrow> string list \<Rightarrow> finding \<Rightarrow> 'w state \<Rightarrow> (js_error \<times> 'w state + 'w state) option" where
  "whileLoop env repoName lowerFiles f st =
     (case iteration env repoName lowerFiles f st of
        Success st \<Rightarrow> Some (Inr st)
      | Break st \<Rightarrow> Some (Inr st)
      | Continue st \<Rightarrow> whileLoop env repoName lowerFiles f st
      | Throw err st \<Rightarrow> Some (Inl (err, st)))"

declare whileLoop.simps [code]

text \<open>The \<open>for (const finding of findings)\<close> loop.\<close>

fun forLoop ::
  "'w services \<Rightarrow> string \<Rightarrow> string list \<Rightarrow> finding list \<Rightarrow> 'w state \<Rightarrow> (js_error \<times> 'w state + 'w state) option" where
  "forLoop env repoName lowerFiles [] st = Some (Inr st)"
| "forLoop env repoName lowerFiles (f # fs) st =
     (case whileLoop env repoName lowerFiles f st of
        None \<Rightarrow> None
      | Some (Inl thrown) \<Rightarrow> Some (Inl thrown)
      | Some (Inr st) \<Rightarrow> forLoop env repoName lowerFiles fs st)"


text \<open>Lines 131 to 224: what the script does with the findings.\<close>

definition report ::
  "'w services \<Rightarrow> string \<Rightarrow> string list \<Rightarrow> finding list \<Rightarrow> 'w state \<Rightarrow> (js_error \<times> 'w state + 'w state) option" where
  "report env repoName lowerFiles findings st =
     (if length findings = 0 then Some (Inr (logs [No_common_issues] st))
      else forLoop env repoName lowerFiles findings (logs [Found_issues (length findings)] st))"

text \<open>The outer \<open>catch\<close> and \<open>finally\<close> (lines 226 to 230).\<close>

definition catchFinally :: "(js_error \<times> 'w state + 'w state) \<Rightarrow> 'w state" where
  "catchFinally r =
     (let st = (case r of
                  Inl (error, st) \<Rightarrow> logs [Unexpected_error (message error)] st
                | Inr st \<Rightarrow> st)
      in st\<lparr>calls := calls st @ [Rl_close]\<rparr>)"

text \<open>
  The reconciliation of a sequence of findings: the ticket loop inside the outer
  \<open>try\<close>/\<open>catch\<close>/\<open>finally\<close>.
\<close>

definition reconcile ::
  "'w services \<Rightarrow> string \<Rightarrow> string list \<Rightarrow> finding list \<Rightarrow> 'w state \<Rightarrow> 'w state option" where
  "reconcile env repoName lowerFiles findings st =
     map_option catchFinally (report env repoName lowerFiles findings st)"

text \<open>
  Lines 80 to 129 inside \<open>inspectRepo\<close>, with the two calls that fetch the listings: the
  root listing, checks 1 to 3, the workflow listing, check 4. The result is the error thrown by
  a call, or \<open>lowerFiles\<close> and \<open>findings\<close>.
\<close>

definition detection ::
  "'w services \<Rightarrow> string \<Rightarrow> 'w state \<Rightarrow> js_error \<times> 'w state + (string list \<times> finding list) \<times> 'w state" where
  "detection env repoName st =
     (case getRepoRootFiles env repoName (world st) of (r, w) \<Rightarrow>
        let st = called (GetRepoRootFiles repoName) w st in
        (case r of
           Inl error \<Rightarrow> Inl (error, st)
         | Inr rootFiles \<Rightarrow>
             let lowerFiles = map toLowerCase rootFiles;
                 acc = checkRootFiles repoName lowerFiles;
                 st = logs (snd acc) st
             in (case getRepoDirectoryFiles env repoName ''.github/workflows'' (world st) of (r, w) \<Rightarrow>
                   let st = called (GetRepoDirectoryFiles repoName ''.github/workflows'') w st in
                   (case r of
                      Inl error \<Rightarrow> Inl (error, st)
                    | Inr workflowFiles \<Rightarrow>
                        let acc' = checkWorkflows repoName workflowFiles (fst acc, []);
                            st = logs (snd acc') st
                        in Inr ((lowerFiles, fst acc'), st)))))"

text \<open>
  \<open>inspectRepo\<close> from line 80, for a repository whose name has been read and whose access has
  been confirmed.
\<close>

definition inspectRepo :: "'w services \<Rightarrow> string \<Rightarrow> 'w state \<Rightarrow> 'w state option" where
  "inspectRepo env repoName st =
     map_option catchFinally
       (case detection env repoName st of
          Inl thrown \<Rightarrow> Some (Inl thrown)
        | Inr ((lowerFiles, findings), st) \<Rightarrow> report env repoName lowerFiles findings st)"

text \<open>
  The outcome of a finding as the script reports it: the \<open>Updated\<close>, \<open>Created\<close> and
  \<open>Failed to process\<close> lines, each naming the finding by its summary.
\<close>

datatype outcome = created string | updated string | abandoned "string option"

fun outcome_of :: "log_line \<Rightarrow> (string \<times> outcome) list" where
  "outcome_of (Updated k s) = [(s, updated k)]"
| "outcome_of (Created k s) = [(s, created k)]"
| "outcome_of (Failed_to_process s m) = [(s, abandoned m)]"
| "outcome_of _ = []"

definition outcomes :: "log_line list \<Rightarrow> (string \<times> outcome) list" where
  "outcomes ls = concat (map outcome_of ls)"


section \<open>A scripted outside world\<close>

text \<open>
  Collaborators for concrete runs: each call answers with the next entry of its script, and
  throws once its script is used up (the prompt then answers with the empty line).
\<close>

record script =
  rootFiles_script :: "js_error + string list"
  workflowFiles_script :: "js_error + string list"
  search_script :: "(js_error + issue list) list"
  update_script :: "(js_error + unit) list"
  create_script :: "(js_error + issue) list"
  projects_script :: "(js_error + project list) list"
  answers_script :: "string list"

definition exhausted :: js_error where
  "exhausted = \<lparr>message = Some ''script used up''\<rparr>"

definition scripted :: "script services" where
  "scripted =
     \<lparr>getRepoRootFiles = (\<lambda>repoName w. (rootFiles_script w, w)),
      getRepoDirectoryFiles = (\<lambda>repoName path w. (workflowFiles_script w, w)),
      searchIssues = (\<lambda>jql w. case search_script w of
                         [] \<Rightarrow> (Inl exhausted, w)
                       | r # rs \<Rightarrow> (r, w\<lparr>search_script := rs\<rparr>)),
      updateIssue = (\<lambda>k s d w. case update_script w of
                         [] \<Rightarrow> (Inl exhausted, w)
                       | r # rs \<Rightarrow> (r, w\<lparr>update_script := rs\<rparr>)),
      createIssue = (\<lambda>p s d t w. case create_script w of
                         [] \<Rightarrow> (Inl exhausted, w)
                       | r # rs \<Rightarrow> (r, w\<lparr>create_script := rs\<rparr>)),
      getProjects = (\<lambda>w. case projects_script w of
                         [] \<Rightarrow> (Inl exhausted, w)
                       | r # rs \<Rightarrow> (r, w\<lparr>projects_script := rs\<rparr>)),
      askQuestion = (\<lambda>q w. case answers_script w of
                         [] \<Rightarrow> ([], w)
                       | a # as \<Rightarrow> (a, w\<lparr>answers_script := as\<rparr>))\<rparr>"

definition start :: "string \<Rightarrow> 'w \<Rightarrow> 'w state" where
  "start projectKey w = \<lparr>JIRA_PROJECT_KEY = projectKey, console = [], calls = [], world = w\<rparr>"

text \<open>
  A tracker that holds no issue and refuses its second creation for a reason that has nothing
  to do with the project; its state is the number of creations asked for so far.
\<close>

definition rate_limited :: "nat services" where
  "rate_limited =
     \<lparr>getRepoRootFiles = (\<lambda>repoName w. (Inr [], w)),
      getRepoDirectoryFiles = (\<lambda>repoName path w. (Inr [], w)),
      searchIssues = (\<lambda>jql w. (Inr [], w)),
      updateIssue = (\<lambda>k s d w. (Inr (), w)),
      createIssue = (\<lambda>p s d t w.
                       (if w = 1 then Inl \<lparr>message = Some ''Rate limit exceeded''\<rparr>
                        else Inr \<lparr>issue_key = p @ ''-'' @ [hexDigit w]\<rparr>, w + 1)),
      getProjects = (\<lambda>w. (Inr [], w)),
      askQuestion = (\<lambda>q w. ([], w))\<rparr>"

definition script0 :: script where
  "script0 =
     \<lparr>rootFiles_script = Inr [], workflowFiles_script = Inr [], search_script = [],
      update_script = [], create_script = [], projects_script = [], answers_script = []\<rparr>"





section \<open>A ticket store\<close>

text \<open>
  Modelled from the spec: the tickets of the store behind \<open>jiraService\<close>, which is not among
  the sources. A ticket is a record identified by a unique key, filed under a collection, with
  a summary and a description; the store keeps its tickets in the order of filing, the number
  of keys minted, its collections, and the lines the operator will answer the prompt with.
\<close>

record ticket =
  ticket_key :: string
  ticket_project :: string
  ticket_summary :: string
  ticket_description :: string

record tracker =
  tickets :: "ticket list"
  minted :: nat
  collections :: "project list"
  operator :: "string list"

text \<open>The decimal digits of a serial number.\<close>

fun decimal :: "nat \<Rightarrow> string" where
  "decimal n = (if n < 10 then [hexDigit n] else decimal (n div 10) @ [hexDigit (n mod 10)])"

declare decimal.simps [simp del]

text \<open>
  Modelled from the spec: \<open>searchIssues\<close>, \<open>createIssue\<close>, \<open>updateIssue\<close> and
  \<open>getProjects\<close> of \<open>jiraService\<close>, which is not among the sources. The search returns, in
  the order of filing, the tickets whose collection and summary are those the query of the
  script names; a creation in a collection the store does not have fails with the
  collection-required message, and otherwise files a ticket under a freshly minted key, the
  collection followed by a serial number; an update rewrites the summary and the description
  of the ticket with the given key, and fails when there is none.
\<close>

definition jira :: "tracker services" where
  "jira =
     \<lparr>getRepoRootFiles = (\<lambda>repoName w. (Inr [], w)),
      getRepoDirectoryFiles = (\<lambda>repoName path w. (Inr [], w)),
      searchIssues = (\<lambda>jql w.
         (Inr (map (\<lambda>t. \<lparr>issue_key = ticket_key t\<rparr>)
                 (filter (\<lambda>t. jqlFor (ticket_project t) (ticket_summary t) = jql) (tickets w))), w)),
      updateIssue = (\<lambda>k s d w.
         if k \<in> set (map ticket_key (tickets w))
         then (Inr (), w\<lparr>tickets := map (\<lambda>t. if ticket_key t = k
                                               then t\<lparr>ticket_summary := s, ticket_description := d\<rparr>
                                               else t) (tickets w)\<rparr>)
         else (Inl \<lparr>message = Some ''Issue does not exist''\<rparr>, w)),
      createIssue = (\<lambda>p s d t w.
         if p \<in> set (map project_key (collections w))
         then (Inr \<lparr>issue_key = p @ ''-'' @ decimal (Suc (minted w))\<rparr>,
               w\<lparr>tickets := tickets w @ [\<lparr>ticket_key = p @ ''-'' @ decimal (Suc (minted w)),
                                           ticket_project = p, ticket_summary = s,
                                           ticket_description = d\<rparr>],
                 minted := Suc (minted w)\<rparr>)
         else (Inl \<lparr>message = Some ''project is required''\<rparr>, w)),
      getProjects = (\<lambda>w. (Inr (collections w), w)),
      askQuestion = (\<lambda>q w. case operator w of
                              [] \<Rightarrow> ([], w)
                            | a # as \<Rightarrow> (a, w\<lparr>operator := as\<rparr>))\<rparr>"




text \<open>A store with the collection \<open>DOT\<close> and no ticket, and a store with no collection at all.\<close>

definition empty_tracker :: tracker where
  "empty_tracker =
     \<lparr>tickets = [], minted = 0,
      collections = [\<lparr>project_key = ''DOT'', project_name = ''DevOps''\<rparr>], operator = []\<rparr>"


section \<open>Substrings of a quoted message\<close>

text \<open>
  Line 183 looks for its two phrases in \<open>JSON.stringify(err.message || '')\<close>. The escapes
  begin with a backslash and continue with characters no phrase starts with, so a phrase is in
  the quoted text exactly when it is in the message.
\<close>

lemma hexDigit_not_pv: "d < 16 \<Longrightarrow> hexDigit d \<noteq> CHR ''p'' \<and> hexDigit d \<noteq> CHR ''v''"
proof -
  assume d: "d < 16"
  have "of_char (hexDigit d) \<noteq> (112::nat) \<and> of_char (hexDigit d) \<noteq> (118::nat)"
    using d by (auto simp: hexDigit_def)
  then show ?thesis by auto
qed

lemma quoteJSONChar_cases:
  "quoteJSONChar c = [c] \<or> (\<exists>e. quoteJSONChar c = bs # e \<and> CHR ''p'' \<notin> set e \<and> CHR ''v'' \<notin> set e)"
proof -
  have h: "hexDigit (of_char c div 16) \<noteq> CHR ''p'' \<and> hexDigit (of_char c div 16) \<noteq> CHR ''v''
     \<and> hexDigit (of_char c mod 16) \<noteq> CHR ''p'' \<and> hexDigit (of_char c mod 16) \<noteq> CHR ''v''"
    if "(of_char c :: nat) < 32"
    using that hexDigit_not_pv[of "of_char c div 16"] hexDigit_not_pv[of "of_char c mod 16"] by simp
  show ?thesis
    using h by (auto simp: quoteJSONChar_def Let_def dq_def bs_def)
qed

lemma unescaped_chars: "quoteJSONChar c = [c] \<Longrightarrow> c \<noteq> dq \<and> c \<noteq> bs"
  by (auto simp: quoteJSONChar_def Let_def dq_def bs_def split: if_splits)

lemma concat_unescaped: "unescaped n \<Longrightarrow> concat (map quoteJSONChar n) = n"
  by (induction n) auto

lemma prefix_quoted:
  "unescaped n \<Longrightarrow> prefix n (concat (map quoteJSONChar cs) @ [dq]) \<Longrightarrow> prefix n cs"
proof (induction cs arbitrary: n)
  case Nil
  then show ?case
    by (cases n) (auto dest: unescaped_chars)
next
  case (Cons c cs)
  show ?case
  proof (cases n)
    case Nil
    then show ?thesis by simp
  next
    case (Cons a n')
    have pa: "quoteJSONChar a = [a]" and pn': "unescaped n'"
      using Cons.prems(1) Cons by auto
    from quoteJSONChar_cases[of c] show ?thesis
    proof
      assume q: "quoteJSONChar c = [c]"
      with Cons.prems(2) Cons have "a = c" "prefix n' (concat (map quoteJSONChar cs) @ [dq])"
        by auto
      with Cons.IH[OF pn'] Cons show ?thesis by simp
    next
      assume "\<exists>e. quoteJSONChar c = bs # e \<and> CHR ''p'' \<notin> set e \<and> CHR ''v'' \<notin> set e"
      then obtain e where "quoteJSONChar c = bs # e" by blast
      with Cons.prems(2) Cons have "a = bs" by auto
      with unescaped_chars[OF pa] show ?thesis by simp
    qed
  qed
qed

lemma sublist_skip:
  "n \<noteq> [] \<Longrightarrow> hd n \<notin> set e \<Longrightarrow> sublist n (e @ R) \<Longrightarrow> sublist n R"
proof (induction e)
  case Nil
  then show ?case by simp
next
  case (Cons x e)
  from Cons.prems(3) have "prefix n (x # e @ R) \<or> sublist n (e @ R)"
    by (simp add: sublist_Cons_right)
  then show ?case
  proof
    assume "prefix n (x # e @ R)"
    with Cons.prems(1,2) show ?thesis by (cases n) auto
  next
    assume "sublist n (e @ R)"
    with Cons show ?thesis by simp
  qed
qed

lemma sublist_quoted:
  assumes "unescaped n" "n \<noteq> []" "hd n = CHR ''p'' \<or> hd n = CHR ''v''"
  shows "sublist n (concat (map quoteJSONChar cs) @ [dq]) \<Longrightarrow> sublist n cs"
proof (induction cs)
  case Nil
  then have "prefix n [dq] \<or> sublist n []" by (simp add: sublist_Cons_right)
  with assms show ?case by (cases n) (auto simp: dq_def)
next
  case (Cons c cs)
  let ?R = "concat (map quoteJSONChar cs) @ [dq]"
  from quoteJSONChar_cases[of c] show ?case
  proof
    assume q: "quoteJSONChar c = [c]"
    with Cons.prems have "prefix n (c # ?R) \<or> sublist n ?R"
      by (simp add: sublist_Cons_right)
    then show ?thesis
    proof
      assume "prefix n (c # ?R)"
      then have "prefix n (concat (map quoteJSONChar (c # cs)) @ [dq])" using q by simp
      from prefix_quoted[OF assms(1) this] show ?thesis by (rule prefix_imp_sublist)
    next
      assume "sublist n ?R"
      then show ?thesis using Cons.IH by (simp add: sublist_Cons_right)
    qed
  next
    assume "\<exists>e. quoteJSONChar c = bs # e \<and> CHR ''p'' \<notin> set e \<and> CHR ''v'' \<notin> set e"
    then obtain e where e: "quoteJSONChar c = bs # e" "CHR ''p'' \<notin> set e" "CHR ''v'' \<notin> set e" by blast
    have "hd n \<notin> set (bs # e)" using assms(3) e by (auto simp: bs_def)
    moreover have "sublist n ((bs # e) @ ?R)" using Cons.prems e by simp
    ultimately have "sublist n ?R" using sublist_skip[OF assms(2)] by blast
    then show ?thesis using Cons.IH by (simp add: sublist_Cons_right)
  qed
qed

lemma sublist_JSON_stringify:
  assumes "unescaped n" "n \<noteq> []" "hd n = CHR ''p'' \<or> hd n = CHR ''v''"
  shows "sublist n (JSON_stringify m) \<longleftrightarrow> sublist n m"
proof
  assume "sublist n (JSON_stringify m)"
  then have "prefix n (dq # concat (map quoteJSONChar m) @ [dq]) \<or> sublist n (concat (map quoteJSONChar m) @ [dq])"
    by (simp add: JSON_stringify_def sublist_Cons_right)
  moreover have "\<not> prefix n (dq # concat (map quoteJSONChar m) @ [dq])"
    using assms by (cases n) (auto simp: dq_def)
  ultimately show "sublist n m" using sublist_quoted[OF assms] by blast
next
  assume "sublist n m"
  then obtain ps ss where "m = ps @ n @ ss" by (auto simp: sublist_def)
  then have "JSON_stringify m = (dq # concat (map quoteJSONChar ps)) @ n @ (concat (map quoteJSONChar ss) @ [dq])"
    by (simp add: JSON_stringify_def concat_unescaped[OF assms(1)])
  then show "sublist n (JSON_stringify m)" unfolding sublist_def by blast
qed

lemma unescaped_needle: "unescaped ''project is required''"
  by code_simp

lemma isProjectError_iff:
  "isProjectError err \<longleftrightarrow>
     (case message err of None \<Rightarrow> False
      | Some m \<Rightarrow> sublist ''project is required'' m \<or> sublist ''400'' m)"
proof -
  have v: "sublist ''valid project is required'' x \<Longrightarrow> sublist ''project is required'' x" for x
  proof -
    have "sublist ''project is required'' ''valid project is required''" by code_simp
    then show "sublist ''valid project is required'' x \<Longrightarrow> sublist ''project is required'' x"
      using sublist_order.order_trans by blast
  qed
  have j: "sublist ''project is required'' (JSON_stringify m) \<longleftrightarrow> sublist ''project is required'' m" for m
    by (rule sublist_JSON_stringify[OF unescaped_needle]) simp_all
  have pv: "unescaped ''valid project is required''"
    by code_simp
  have j2: "sublist ''valid project is required'' (JSON_stringify m) \<longleftrightarrow> sublist ''valid project is required'' m" for m
    by (rule sublist_JSON_stringify[OF pv]) simp_all
  show ?thesis
    unfolding isProjectError_def Let_def j j2
    using v by (auto split: option.splits)
qed

section \<open>The steps of one pass\<close>

lemma logs_fields [simp]:
  "JIRA_PROJECT_KEY (logs ls st) = JIRA_PROJECT_KEY st"
  "console (logs ls st) = console st @ ls"
  "calls (logs ls st) = calls st"
  "world (logs ls st) = world st"
  by (simp_all add: logs_def)

lemma called_fields [simp]:
  "JIRA_PROJECT_KEY (called c w st) = JIRA_PROJECT_KEY st"
  "console (called c w st) = console st"
  "calls (called c w st) = calls st @ [c]"
  "world (called c w st) = w"
  by (simp_all add: called_def)

lemma tryBody_search_throws:
  assumes "searchIssues env (jqlFor (JIRA_PROJECT_KEY st) (summary f)) (world st) = (Inl err, w1)"
  shows "tryBody env repoName lowerFiles f st =
           (Inl err, called (SearchIssues (jqlFor (JIRA_PROJECT_KEY st) (summary f))) w1 st)"
  using assms by (simp add: tryBody_def Let_def)



text \<open>What the try block does to the state, whatever the collaborators answer.\<close>

lemma tryBody_effect:
  assumes "tryBody env repoName lowerFiles f st = (r, st')"
  shows "JIRA_PROJECT_KEY st' = JIRA_PROJECT_KEY st
       \<and> (\<exists>cs. calls st' = calls st @ SearchIssues (jqlFor (JIRA_PROJECT_KEY st) (summary f)) # cs
              \<and> (cs = [] \<or> (\<exists>k. cs = [UpdateIssue k (summary f) (newDescription repoName lowerFiles f)])
                  \<or> cs = [CreateIssue (JIRA_PROJECT_KEY st) (summary f) (newDescription repoName lowerFiles f) ''Task'']))
       \<and> (case r of Inl err \<Rightarrow> console st' = console st
           | Inr u \<Rightarrow> \<exists>k. console st' = console st @ [Updated k (summary f)]
                        \<or> console st' = console st @ [Created k (summary f)])"
  using assms
  by (auto simp: tryBody_def Let_def split: prod.splits sum.splits list.splits)




lemma selectProject_calls:
  "\<exists>rest. calls (state_of (selectProject env err st)) = calls st @ GetProjects # rest"
  by (auto simp: selectProject_def Let_def split: prod.splits sum.splits option.splits)


lemma tryBody_error_source:
  assumes "tryBody env repoName lowerFiles f st = (Inl e, st2)"
  shows "(\<exists>jql w w'. searchIssues env jql w = (Inl e, w'))
       \<or> (\<exists>k s d w w'. updateIssue env k s d w = (Inl e, w'))
       \<or> (\<exists>p s d t w w'. createIssue env p s d t w = (Inl e, w'))"
  using assms
  by (auto simp: tryBody_def Let_def split: prod.splits sum.splits list.splits)

lemma iteration_ok: 
  assumes "tryBody env repoName lowerFiles f st = (Inr u, st2)"
  shows "iteration env repoName lowerFiles f st = Success st2"
  using assms by (simp add: iteration_def)

lemma iteration_caught:
  assumes "tryBody env repoName lowerFiles f st = (Inl e, st2)"
  shows "iteration env repoName lowerFiles f st = catchClause env f e st2"
  using assms by (simp add: iteration_def)

lemma whileLoop_Break:
  "iteration env repoName lowerFiles f st = Break st' \<Longrightarrow>
   whileLoop env repoName lowerFiles f st = Some (Inr st')"
  by (subst whileLoop.simps) simp

lemma whileLoop_Success:
  "iteration env repoName lowerFiles f st = Success st' \<Longrightarrow>
   whileLoop env repoName lowerFiles f st = Some (Inr st')"
  by (subst whileLoop.simps) simp


lemma whileLoop_Continue:
  "iteration env repoName lowerFiles f st = Continue st' \<Longrightarrow>
   whileLoop env repoName lowerFiles f st = whileLoop env repoName lowerFiles f st'"
  by (subst whileLoop.simps) simp

lemma forLoop_without_project_errors:
  assumes s: "\<forall>jql w e w'. searchIssues env jql w = (Inl e, w') \<longrightarrow> \<not> isProjectError e"
    and u: "\<forall>k s d w e w'. updateIssue env k s d w = (Inl e, w') \<longrightarrow> \<not> isProjectError e"
    and c: "\<forall>p s d t w e w'. createIssue env p s d t w = (Inl e, w') \<longrightarrow> \<not> isProjectError e"
  shows "\<exists>st' ls. forLoop env repoName lowerFiles fs st = Some (Inr st')
           \<and> console st' = console st @ ls \<and> map fst (outcomes ls) = map summary fs
           \<and> JIRA_PROJECT_KEY st' = JIRA_PROJECT_KEY st"
proof (induction fs arbitrary: st)
  case Nil
  show ?case by (simp add: outcomes_def)
next
  case (Cons f fs)
  obtain r st2 where t: "tryBody env repoName lowerFiles f st = (r, st2)"
    by (cases "tryBody env repoName lowerFiles f st")
  note eff = tryBody_effect[OF t]
  have "\<exists>st1 l. whileLoop env repoName lowerFiles f st = Some (Inr st1)
          \<and> console st1 = console st @ [l] \<and> map fst (outcome_of l) = [summary f]
          \<and> JIRA_PROJECT_KEY st1 = JIRA_PROJECT_KEY st"
  proof (cases r)
    case (Inr x)
    with t have "whileLoop env repoName lowerFiles f st = Some (Inr st2)"
      by (simp add: iteration_ok whileLoop_Success)
    with eff Inr show ?thesis by auto
  next
    case (Inl e)
    with t tryBody_error_source[of env repoName lowerFiles f st e st2] s u c
    have "\<not> isProjectError e" by blast
    with t Inl have "iteration env repoName lowerFiles f st
                       = Break (logs [Failed_to_process (summary f) (message e)] st2)"
      by (simp add: iteration_caught catchClause_def)
    then have "whileLoop env repoName lowerFiles f st
                 = Some (Inr (logs [Failed_to_process (summary f) (message e)] st2))"
      by (rule whileLoop_Break)
    with eff Inl show ?thesis by auto
  qed
  then obtain st1 l where st1: "whileLoop env repoName lowerFiles f st = Some (Inr st1)"
    "console st1 = console st @ [l]" "map fst (outcome_of l) = [summary f]"
    "JIRA_PROJECT_KEY st1 = JIRA_PROJECT_KEY st"
    by auto
  from Cons.IH[of st1] obtain st' ls where
    r: "forLoop env repoName lowerFiles fs st1 = Some (Inr st')"
      "console st' = console st1 @ ls" "map fst (outcomes ls) = map summary fs"
      "JIRA_PROJECT_KEY st' = JIRA_PROJECT_KEY st1"
    by blast
  from st1 r have "forLoop env repoName lowerFiles (f # fs) st = Some (Inr st')
      \<and> console st' = console st @ (l # ls) \<and> map fst (outcomes (l # ls)) = map summary (f # fs)
      \<and> JIRA_PROJECT_KEY st' = JIRA_PROJECT_KEY st"
    by (simp add: outcomes_def)
  then show ?case by blast
qed





lemma detection_effect:
  assumes "getRepoRootFiles env repoName (world st) = (Inr rootFiles, w1)"
    and "getRepoDirectoryFiles env repoName ''.github/workflows'' w1 = (Inr workflowFiles, w2)"
  shows "detection env repoName st =
           Inr ((map toLowerCase rootFiles, fst (detect repoName rootFiles workflowFiles)),
                \<lparr>JIRA_PROJECT_KEY = JIRA_PROJECT_KEY st,
                 console = console st @ snd (detect repoName rootFiles workflowFiles),
                 calls = calls st @ [GetRepoRootFiles repoName,
                                     GetRepoDirectoryFiles repoName ''.github/workflows''],
                 world = w2\<rparr>)"
  using assms
  by (simp add: detection_def detect_def Let_def checkWorkflows_def logs_def called_def)

lemma inspectRepo_reconcile:
  "detection env repoName st = Inr ((lowerFiles, findings), st') \<Longrightarrow>
   inspectRepo env repoName st = reconcile env repoName lowerFiles findings st'"
  by (simp add: inspectRepo_def reconcile_def)


section \<open>The project key follows the printed choice\<close>







section \<open>What a pass reads of the state\<close>






section \<open>Lemmas on the ticket store\<close>






















section \<open>The detector\<close>





section \<open>Search, then update or create\<close>



section \<open>Failures that are not project errors\<close>

text \<open>
  C2. A failure thrown in the try block (by the search, the update or the creation) is taken
  for a project error exactly when its message contains \<open>project is required\<close> or the
  status code \<open>400\<close>, and the pass asks for the list of projects exactly in that case. Any
  other failure prints the \<open>Failed to process\<close> line for this finding, leaves the project
  key as it is, and the loop goes on with the next finding. When no failure of the tracker is a
  project error, the loop over the findings returns, with one outcome for each finding, in
  order.
\<close>

theorem other_failures_abandon_one_finding:
  "(isProjectError err \<longleftrightarrow>
      (\<exists>m. message err = Some m \<and> (sublist ''project is required'' m \<or> sublist ''400'' m)))
   \<and> (GetProjects \<in> set (drop (length (calls st)) (calls (state_of (iteration env repoName lowerFiles f st))))
        \<longleftrightarrow> (\<exists>e st2. tryBody env repoName lowerFiles f st = (Inl e, st2) \<and> isProjectError e))
   \<and> (\<forall>e st2. tryBody env repoName lowerFiles f st = (Inl e, st2) \<longrightarrow> \<not> isProjectError e \<longrightarrow>
          iteration env repoName lowerFiles f st
            = Break (logs [Failed_to_process (summary f) (message e)] st2)
          \<and> console st2 = console st \<and> JIRA_PROJECT_KEY st2 = JIRA_PROJECT_KEY st
          \<and> forLoop env repoName lowerFiles (f # fs) st
              = forLoop env repoName lowerFiles fs (logs [Failed_to_process (summary f) (message e)] st2))
   \<and> ((\<forall>jql w e w'. searchIssues env jql w = (Inl e, w') \<longrightarrow> \<not> isProjectError e)
        \<longrightarrow> (\<forall>k s d w e w'. updateIssue env k s d w = (Inl e, w') \<longrightarrow> \<not> isProjectError e)
        \<longrightarrow> (\<forall>p s d t w e w'. createIssue env p s d t w = (Inl e, w') \<longrightarrow> \<not> isProjectError e)
        \<longrightarrow> (\<exists>st' ls. forLoop env repoName lowerFiles fs st = Some (Inr st')
               \<and> console st' = console st @ ls \<and> map fst (outcomes ls) = map summary fs
               \<and> JIRA_PROJECT_KEY st' = JIRA_PROJECT_KEY st))"
proof (intro conjI allI impI)
  show "isProjectError err \<longleftrightarrow>
      (\<exists>m. message err = Some m \<and> (sublist ''project is required'' m \<or> sublist ''400'' m))"
    by (auto simp: isProjectError_iff split: option.splits)
next
  obtain r st2 where t: "tryBody env repoName lowerFiles f st = (r, st2)"
    by (cases "tryBody env repoName lowerFiles f st")
  from tryBody_effect[OF t] obtain cs where
    cs: "calls st2 = calls st @ cs" "GetProjects \<notin> set cs"
    by auto
  show "GetProjects \<in> set (drop (length (calls st)) (calls (state_of (iteration env repoName lowerFiles f st))))
        \<longleftrightarrow> (\<exists>e st2. tryBody env repoName lowerFiles f st = (Inl e, st2) \<and> isProjectError e)"
  proof (cases r)
    case (Inr x)
    with t cs show ?thesis by (simp add: iteration_def)
  next
    case (Inl e)
    show ?thesis
    proof (cases "isProjectError e")
      case True
      from selectProject_calls[of env e st2] obtain rest where
        "calls (state_of (selectProject env e st2)) = calls st2 @ GetProjects # rest"
        by blast
      with t Inl True cs show ?thesis by (auto simp: iteration_def catchClause_def)
    next
      case False
      with t Inl cs show ?thesis by (simp add: iteration_def catchClause_def)
    qed
  qed
next
  fix e st2
  assume t: "tryBody env repoName lowerFiles f st = (Inl e, st2)" and n: "\<not> isProjectError e"
  from t n show b: "iteration env repoName lowerFiles f st
            = Break (logs [Failed_to_process (summary f) (message e)] st2)"
    by (simp add: iteration_caught catchClause_def)
  from tryBody_effect[OF t] show "console st2 = console st" "JIRA_PROJECT_KEY st2 = JIRA_PROJECT_KEY st"
    by simp_all
  from whileLoop_Break[OF b]
  show "forLoop env repoName lowerFiles (f # fs) st
              = forLoop env repoName lowerFiles fs (logs [Failed_to_process (summary f) (message e)] st2)"
    by simp
next
  assume "\<forall>jql w e w'. searchIssues env jql w = (Inl e, w') \<longrightarrow> \<not> isProjectError e"
    "\<forall>k s d w e w'. updateIssue env k s d w = (Inl e, w') \<longrightarrow> \<not> isProjectError e"
    "\<forall>p s d t w e w'. createIssue env p s d t w = (Inl e, w') \<longrightarrow> \<not> isProjectError e"
  then show "\<exists>st' ls. forLoop env repoName lowerFiles fs st = Some (Inr st')
               \<and> console st' = console st @ ls \<and> map fst (outcomes ls) = map summary fs
               \<and> JIRA_PROJECT_KEY st' = JIRA_PROJECT_KEY st"
    by (rule forLoop_without_project_errors)
qed


text \<open>
  A creation refused for the rate limit is abandoned alone; over the four findings of an empty
  repository, with the second creation refused, the loop returns one outcome per finding.
\<close>

theorem other_failures_abandon_one_finding_witness:
  "\<not> isProjectError \<lparr>message = Some ''Rate limit exceeded''\<rparr>
   \<and> iteration rate_limited ''owner/repo'' [] (licenseFinding ''owner/repo'') (start ''DOT'' 1)
       = Break (logs [Failed_to_process (summary (licenseFinding ''owner/repo'')) (Some ''Rate limit exceeded'')]
                  \<lparr>JIRA_PROJECT_KEY = ''DOT'', console = [],
                   calls = [SearchIssues (jqlFor ''DOT'' (summary (licenseFinding ''owner/repo''))),
                            CreateIssue ''DOT'' (summary (licenseFinding ''owner/repo''))
                              (newDescription ''owner/repo'' [] (licenseFinding ''owner/repo'')) ''Task''],
                   world = 2\<rparr>)
   \<and> (\<exists>st' ls. forLoop rate_limited ''owner/repo'' [] (fst (detect ''owner/repo'' [] [])) (start ''DOT'' 0)
                  = Some (Inr st')
          \<and> console st' = console (start ''DOT'' (0::nat)) @ ls
          \<and> map fst (outcomes ls) = map summary (fst (detect ''owner/repo'' [] []))
          \<and> JIRA_PROJECT_KEY st' = JIRA_PROJECT_KEY (start ''DOT'' (0::nat)))"
proof (intro conjI)
  let ?e = "\<lparr>message = Some ''Rate limit exceeded''\<rparr>"
  let ?f = "licenseFinding ''owner/repo''"
  let ?st2 = "\<lparr>JIRA_PROJECT_KEY = ''DOT'', console = [],
               calls = [SearchIssues (jqlFor ''DOT'' (summary ?f)),
                        CreateIssue ''DOT'' (summary ?f) (newDescription ''owner/repo'' [] ?f) ''Task''],
               world = 2::nat\<rparr>"
  show n: "\<not> isProjectError ?e"
    by code_simp
  have t: "tryBody rate_limited ''owner/repo'' [] ?f (start ''DOT'' 1) = (Inl ?e, ?st2)"
    by code_simp
  from other_failures_abandon_one_finding[of ?e "start ''DOT'' 1" rate_limited "''owner/repo''" "[]" ?f "[]",
      THEN conjunct2, THEN conjunct2, THEN conjunct1, rule_format, OF t n]
  show "iteration rate_limited ''owner/repo'' [] ?f (start ''DOT'' 1)
       = Break (logs [Failed_to_process (summary ?f) (Some ''Rate limit exceeded'')] ?st2)"
    by simp
  have s: "\<forall>jql w e w'. searchIssues rate_limited jql w = (Inl e, w') \<longrightarrow> \<not> isProjectError e"
    by (simp add: rate_limited_def)
  have u: "\<forall>k s d w e w'. updateIssue rate_limited k s d w = (Inl e, w') \<longrightarrow> \<not> isProjectError e"
    by (simp add: rate_limited_def)
  have c: "\<forall>p s d t w e w'. createIssue rate_limited p s d t w = (Inl e, w') \<longrightarrow> \<not> isProjectError e"
    using n by (auto simp: rate_limited_def split: if_splits)
  from other_failures_abandon_one_finding[of ?e "start ''DOT'' 0" rate_limited "''owner/repo''" "[]" ?f
        "fst (detect ''owner/repo'' [] [])",
      THEN conjunct2, THEN conjunct2, THEN conjunct2, THEN mp, OF s, THEN mp, OF u, THEN mp, OF c]
  show "\<exists>st' ls. forLoop rate_limited ''owner/repo'' [] (fst (detect ''owner/repo'' [] [])) (start ''DOT'' 0)
                  = Some (Inr st')
          \<and> console st' = console (start ''DOT'' (0::nat)) @ ls
          \<and> map fst (outcomes ls) = map summary (fst (detect ''owner/repo'' [] []))
          \<and> JIRA_PROJECT_KEY st' = JIRA_PROJECT_KEY (start ''DOT'' (0::nat))"
    .
qed

text \<open>The same run, evaluated: findings 1, 3 and 4 are created, finding 2 is abandoned.\<close>

lemma partial_failure_isolation_example:
  "map_option (map_sum (\<lambda>x. ()) (\<lambda>st. outcomes (console st)))
     (forLoop rate_limited ''owner/repo'' [] (fst (detect ''owner/repo'' [] [])) (start ''DOT'' 0))
   = Some (Inr [(''Missing README in owner/repo'', created ''DOT-0''),
                (''Missing LICENSE in owner/repo'', abandoned (Some ''Rate limit exceeded'')),
                (''Missing .gitignore in owner/repo'', created ''DOT-2''),
                (''Missing GitHub Workflows in owner/repo'', created ''DOT-3'')])"
  by code_simp

section \<open>The project key across passes and findings\<close>




section \<open>How a pass ends\<close>



section \<open>A failing search\<close>

text \<open>
  C9. A failure thrown by the search itself ends the try block before any update or creation
  and goes to the same \<open>catch\<close> clause as every other failure of the block: a project error
  leads to the choice of a project and, once a project is chosen, to another pass over the
  same finding; any other error prints the \<open>Failed to process\<close> line and the loop goes on
  with the next finding.
\<close>

theorem search_failure_handled_like_any_other:
  assumes "searchIssues env (jqlFor (JIRA_PROJECT_KEY st) (summary f)) (world st) = (Inl err, w1)"
  shows "tryBody env repoName lowerFiles f st
           = (Inl err, called (SearchIssues (jqlFor (JIRA_PROJECT_KEY st) (summary f))) w1 st)
       \<and> (\<forall>e st2. tryBody env repoName lowerFiles f st = (Inl e, st2) \<longrightarrow>
              iteration env repoName lowerFiles f st = catchClause env f e st2)
       \<and> (isProjectError err \<longrightarrow>
            iteration env repoName lowerFiles f st
              = selectProject env err (called (SearchIssues (jqlFor (JIRA_PROJECT_KEY st) (summary f))) w1 st)
            \<and> (\<forall>st'. iteration env repoName lowerFiles f st = Continue st' \<longrightarrow>
                  forLoop env repoName lowerFiles (f # fs) st = forLoop env repoName lowerFiles (f # fs) st'))
       \<and> (\<not> isProjectError err \<longrightarrow>
            iteration env repoName lowerFiles f st
              = Break (logs [Failed_to_process (summary f) (message err)]
                         (called (SearchIssues (jqlFor (JIRA_PROJECT_KEY st) (summary f))) w1 st))
            \<and> forLoop env repoName lowerFiles (f # fs) st
                = forLoop env repoName lowerFiles fs
                    (logs [Failed_to_process (summary f) (message err)]
                       (called (SearchIssues (jqlFor (JIRA_PROJECT_KEY st) (summary f))) w1 st)))"
proof (intro conjI allI impI)
  let ?st1 = "called (SearchIssues (jqlFor (JIRA_PROJECT_KEY st) (summary f))) w1 st"
  show t: "tryBody env repoName lowerFiles f st = (Inl err, ?st1)"
    using assms by (rule tryBody_search_throws)
  show "iteration env repoName lowerFiles f st = catchClause env f e st2"
    if "tryBody env repoName lowerFiles f st = (Inl e, st2)" for e st2
    using that by (rule iteration_caught)
  show "iteration env repoName lowerFiles f st = selectProject env err ?st1" if "isProjectError err"
    using t that by (simp add: iteration_caught catchClause_def)
  show "forLoop env repoName lowerFiles (f # fs) st = forLoop env repoName lowerFiles (f # fs) st'"
    if "iteration env repoName lowerFiles f st = Continue st'" for st'
    using whileLoop_Continue[OF that] by simp
  show b: "iteration env repoName lowerFiles f st
              = Break (logs [Failed_to_process (summary f) (message err)] ?st1)"
    if "\<not> isProjectError err"
    using t that by (simp add: iteration_caught catchClause_def)
  show "forLoop env repoName lowerFiles (f # fs) st
                = forLoop env repoName lowerFiles fs
                    (logs [Failed_to_process (summary f) (message err)] ?st1)"
    if "\<not> isProjectError err"
    using whileLoop_Break[OF b[OF that]] by simp
qed

text \<open>A search refused with status 400 leads to the choice of a project, one refused with 401 is abandoned.\<close>

theorem search_failure_handled_like_any_other_witness:
  "iteration scripted ''owner/repo'' [] (readmeFinding ''owner/repo'')
     (start ''DOT'' (script0\<lparr>search_script := [Inl \<lparr>message = Some ''Request failed with status code 400''\<rparr>]\<rparr>))
   = selectProject scripted \<lparr>message = Some ''Request failed with status code 400''\<rparr>
       (called (SearchIssues (jqlFor (JIRA_PROJECT_KEY (start ''DOT'' (script0\<lparr>search_script :=
                   [Inl \<lparr>message = Some ''Request failed with status code 400''\<rparr>]\<rparr>)))
                (summary (readmeFinding ''owner/repo''))))
          script0
          (start ''DOT'' (script0\<lparr>search_script := [Inl \<lparr>message = Some ''Request failed with status code 400''\<rparr>]\<rparr>)))
   \<and> iteration scripted ''owner/repo'' [] (readmeFinding ''owner/repo'')
     (start ''DOT'' (script0\<lparr>search_script := [Inl \<lparr>message = Some ''Request failed with status code 401''\<rparr>]\<rparr>))
   = Break (logs [Failed_to_process (summary (readmeFinding ''owner/repo''))
                    (message \<lparr>message = Some ''Request failed with status code 401''\<rparr>)]
       (called (SearchIssues (jqlFor (JIRA_PROJECT_KEY (start ''DOT'' (script0\<lparr>search_script :=
                   [Inl \<lparr>message = Some ''Request failed with status code 401''\<rparr>]\<rparr>)))
                (summary (readmeFinding ''owner/repo''))))
          script0
          (start ''DOT'' (script0\<lparr>search_script := [Inl \<lparr>message = Some ''Request failed with status code 401''\<rparr>]\<rparr>))))"
proof
  let ?e = "\<lparr>message = Some ''Request failed with status code 400''\<rparr>"
  let ?st = "start ''DOT'' (script0\<lparr>search_script := [Inl ?e]\<rparr>)"
  let ?f = "readmeFinding ''owner/repo''"
  have s: "searchIssues scripted (jqlFor (JIRA_PROJECT_KEY ?st) (summary ?f)) (world ?st) = (Inl ?e, script0)"
    by code_simp
  have c: "isProjectError ?e"
    by code_simp
  from search_failure_handled_like_any_other[OF s, of "''owner/repo''" "[]" "[]",
      THEN conjunct2, THEN conjunct2, THEN conjunct1, THEN mp, OF c, THEN conjunct1]
  show "iteration scripted ''owner/repo'' [] ?f ?st
          = selectProject scripted ?e (called (SearchIssues (jqlFor (JIRA_PROJECT_KEY ?st) (summary ?f))) script0 ?st)" .
next
  let ?e = "\<lparr>message = Some ''Request failed with status code 401''\<rparr>"
  let ?st = "start ''DOT'' (script0\<lparr>search_script := [Inl ?e]\<rparr>)"
  let ?f = "readmeFinding ''owner/repo''"
  have s: "searchIssues scripted (jqlFor (JIRA_PROJECT_KEY ?st) (summary ?f)) (world ?st) = (Inl ?e, script0)"
    by code_simp
  have c: "\<not> isProjectError ?e"
    by code_simp
  from search_failure_handled_like_any_other[OF s, of "''owner/repo''" "[]" "[]",
      THEN conjunct2, THEN conjunct2, THEN conjunct2, THEN mp, OF c, THEN conjunct1]
  show "iteration scripted ''owner/repo'' [] ?f ?st
          = Break (logs [Failed_to_process (summary ?f) (message ?e)]
               (called (SearchIssues (jqlFor (JIRA_PROJECT_KEY ?st) (summary ?f))) script0 ?st))" .
qed

section \<open>No project on offer\<close>




section \<open>The answer of the operator\<close>




section \<open>The detection does not depend on the state\<close>

text \<open>
  C8. Any two evaluations of the detection, in whatever state and with whatever collaborators,
  that are given the same two listings yield the same findings in the same order, those of
  \<^const>\<open>detect\<close>; the detection leaves the project key alone, and apart from fetching the
  two listings it only prints its lines.
\<close>

theorem detect_same_listings_same_findings:
  assumes "getRepoRootFiles env1 repoName (world st1) = (Inr rootFiles, w1)"
    and "getRepoDirectoryFiles env1 repoName ''.github/workflows'' w1 = (Inr workflowFiles, w1')"
    and "getRepoRootFiles env2 repoName (world st2) = (Inr rootFiles, w2)"
    and "getRepoDirectoryFiles env2 repoName ''.github/workflows'' w2 = (Inr workflowFiles, w2')"
  shows "\<exists>findings st1' st2'.
           detection env1 repoName st1 = Inr ((map toLowerCase rootFiles, findings), st1')
         \<and> detection env2 repoName st2 = Inr ((map toLowerCase rootFiles, findings), st2')
         \<and> findings = fst (detect repoName rootFiles workflowFiles)
         \<and> JIRA_PROJECT_KEY st1' = JIRA_PROJECT_KEY st1 \<and> world st1' = w1'
         \<and> console st1' = console st1 @ snd (detect repoName rootFiles workflowFiles)
         \<and> calls st1' = calls st1 @ [GetRepoRootFiles repoName,
                                      GetRepoDirectoryFiles repoName ''.github/workflows'']"
  using detection_effect[OF assms(1,2)] detection_effect[OF assms(3,4)] by simp

theorem detect_same_listings_same_findings_witness:
  "\<exists>findings st1' st2'.
      detection scripted ''owner/repo'' (start ''DOT'' script0)
        = Inr ((map toLowerCase [], findings), st1')
    \<and> detection rate_limited ''owner/repo'' (start ''KAN'' 3)
        = Inr ((map toLowerCase [], findings), st2')
    \<and> findings = fst (detect ''owner/repo'' [] [])
    \<and> JIRA_PROJECT_KEY st1' = JIRA_PROJECT_KEY (start ''DOT'' script0) \<and> world st1' = script0
    \<and> console st1' = console (start ''DOT'' script0) @ snd (detect ''owner/repo'' [] [])
    \<and> calls st1' = calls (start ''DOT'' script0) @ [GetRepoRootFiles ''owner/repo'',
                         GetRepoDirectoryFiles ''owner/repo'' ''.github/workflows'']"
proof -
  have a: "getRepoRootFiles scripted ''owner/repo'' (world (start ''DOT'' script0)) = (Inr [], script0)"
    by code_simp
  have b: "getRepoDirectoryFiles scripted ''owner/repo'' ''.github/workflows'' script0 = (Inr [], script0)"
    by code_simp
  have c: "getRepoRootFiles rate_limited ''owner/repo'' (world (start ''KAN'' 3)) = (Inr [], 3)"
    by code_simp
  have d: "getRepoDirectoryFiles rate_limited ''owner/repo'' ''.github/workflows'' 3 = (Inr [], 3)"
    by code_simp
  from detect_same_listings_same_findings[OF a b c d] show ?thesis .
qed

section \<open>A second run\<close>



lemma idempotence_example:
  "map_option (outcomes \<circ> console)
     (reconcile jira ''owner/repo'' [''app.js'', ''.gitignore'']
        (fst (detect ''owner/repo'' [''app.js'', ''.gitignore''] [])) (start ''DOT'' empty_tracker))
   = Some [(''Missing README in owner/repo'', created ''DOT-1''),
           (''Missing LICENSE in owner/repo'', created ''DOT-2''),
           (''Missing GitHub Workflows in owner/repo'', created ''DOT-3'')]
   \<and> map_option (outcomes \<circ> console)
     (reconcile jira ''owner/repo'' [''app.js'', ''.gitignore'']
        (fst (detect ''owner/repo'' [''app.js'', ''.gitignore''] []))
        (start ''DOT'' (world (the (reconcile jira ''owner/repo'' [''app.js'', ''.gitignore'']
           (fst (detect ''owner/repo'' [''app.js'', ''.gitignore''] [])) (start ''DOT'' empty_tracker))))))
   = Some [(''Missing README in owner/repo'', updated ''DOT-1''),
           (''Missing LICENSE in owner/repo'', updated ''DOT-2''),
           (''Missing GitHub Workflows in owner/repo'', updated ''DOT-3'')]"
  by code_simp


end
